theory Spec2Isabelle
  imports Main
begin

section \<open>JavaScript values as the frontend handles them\<close>

text \<open>
  The values that flow through \<open>services/api.js\<close> and the two pages are JSON bodies,
  thrown errors and result objects. Numbers are kept integral (no response field the code
  reads is tested for anything but truthiness). An object is its property table, the first
  binding of a name being the effective one.
\<close>

datatype jsval =
    JUndefined
  | JNull
  | JBool bool
  | JNum int
  | JStr string
  | JArr "jsval list"
  | JObj "(string \<times> jsval) list"

datatype js_error = TypeError

text \<open>
  \<open>v.k\<close>: reading a property of \<open>undefined\<close> or \<open>null\<close> throws a TypeError; a missing
  property reads as \<open>undefined\<close>. None of the names the code reads (\<open>response\<close>,
  \<open>data\<close>, \<open>detail\<close>, \<open>message\<close>, \<open>success\<close>, \<open>error\<close>, \<open>decrypted_file\<close>,
  \<open>file_content\<close>) is a built-in property of a string, number, boolean or array.
\<close>

fun getProp :: "jsval \<Rightarrow> string \<Rightarrow> js_error + jsval" where
  "getProp JUndefined k = Inl TypeError"
| "getProp JNull k = Inl TypeError"
| "getProp (JObj kvs) k = (case map_of kvs k of Some v \<Rightarrow> Inr v | None \<Rightarrow> Inr JUndefined)"
| "getProp v k = Inr JUndefined"

text \<open>\<open>v?.k\<close>: short-circuits to \<open>undefined\<close> when \<open>v\<close> is \<open>undefined\<close> or \<open>null\<close>.\<close>

fun optProp :: "jsval \<Rightarrow> string \<Rightarrow> jsval" where
  "optProp (JObj kvs) k = (case map_of kvs k of Some v \<Rightarrow> v | None \<Rightarrow> JUndefined)"
| "optProp v k = JUndefined"

fun truthy :: "jsval \<Rightarrow> bool" where
  "truthy JUndefined = False"
| "truthy JNull = False"
| "truthy (JBool b) = b"
| "truthy (JNum n) = (n \<noteq> 0)"
| "truthy (JStr s) = (s \<noteq> [])"
| "truthy (JArr xs) = True"
| "truthy (JObj kvs) = True"

text \<open>\<open>a || b\<close> on values already computed.\<close>

definition jsOr :: "jsval \<Rightarrow> jsval \<Rightarrow> jsval" where
  "jsOr a b = (if truthy a then a else b)"

fun isStr :: "jsval \<Rightarrow> bool" where
  "isStr (JStr s) = True"
| "isStr v = False"

section \<open>services/api.js\<close>

record jsfile =
  name :: string
  mime :: string
  size :: nat

text \<open>
  \<open>FormData.append(name, value)\<close> stores a File as it is and any other value as its
  string conversion, so \<open>null\<close> is sent as the text \<open>null\<close>.
\<close>

datatype form_value = Blob jsfile | Text string

fun append_value :: "jsfile option \<Rightarrow> form_value" where
  "append_value (Some f) = Blob f"
| "append_value None = Text ''null''"

record request =
  url :: string
  form :: "(string \<times> form_value) list"

text \<open>
  What \<open>api.post\<close> settles with: axios resolves with a response object, of which the code
  reads \<open>data\<close> only (\<open>Resolved\<close> carries that \<open>response.data\<close>), or rejects with
  the thrown value.
\<close>

datatype outcome = Resolved jsval | Rejected jsval

type_synonym backend = "request \<Rightarrow> outcome"

text \<open>The requests handed to axios are logged in the order they are made.\<close>

definition api_post :: "backend \<Rightarrow> string \<Rightarrow> (string \<times> form_value) list \<Rightarrow> request list
    \<Rightarrow> outcome \<times> request list" where
  "api_post be u fd log = (let r = \<lparr>url = u, form = fd\<rparr> in (be r, log @ [r]))"

text \<open>
  The \<open>catch\<close> block of \<open>registerFile\<close> and \<open>accessFile\<close>:
  \<open>error.response?.data?.detail || error.message || fallback\<close>. The first property
  read is not optional, so a thrown \<open>undefined\<close> or \<open>null\<close> makes the block itself throw.
\<close>

definition failure_result :: "jsval \<Rightarrow> string \<Rightarrow> js_error + jsval" where
  "failure_result err fallback =
     (case getProp err ''response'' of
        Inl e \<Rightarrow> Inl e
      | Inr resp \<Rightarrow>
          (let detail = optProp (optProp resp ''data'') ''detail'' in
           if truthy detail
           then Inr (JObj [(''success'', JBool False), (''error'', detail)])
           else (case getProp err ''message'' of
                   Inl e \<Rightarrow> Inl e
                 | Inr msg \<Rightarrow>
                     Inr (JObj [(''success'', JBool False),
                                (''error'', jsOr msg (JStr fallback))]))))"

definition settle :: "outcome \<Rightarrow> string \<Rightarrow> js_error + jsval" where
  "settle out fallback =
     (case out of
        Resolved d \<Rightarrow> Inr (JObj [(''success'', JBool True), (''data'', d)])
      | Rejected err \<Rightarrow> failure_result err fallback)"

text \<open>The three \<open>formData.append\<close> calls of \<open>registerFile\<close> and of \<open>accessFile\<close>.\<close>

definition register_form :: "jsfile option \<Rightarrow> jsfile option \<Rightarrow> jsfile option
    \<Rightarrow> (string \<times> form_value) list" where
  "register_form file iris fingerprint =
     [(''file'', append_value file), (''iris'', append_value iris),
      (''fingerprint'', append_value fingerprint)]"

definition access_form :: "jsfile option \<Rightarrow> jsfile option \<Rightarrow> jsfile option
    \<Rightarrow> (string \<times> form_value) list" where
  "access_form encryptedFile iris fingerprint =
     [(''encrypted_file'', append_value encryptedFile), (''iris'', append_value iris),
      (''fingerprint'', append_value fingerprint)]"

definition registerFile :: "backend \<Rightarrow> jsfile option \<Rightarrow> jsfile option \<Rightarrow> jsfile option
    \<Rightarrow> request list \<Rightarrow> (js_error + jsval) \<times> request list" where
  "registerFile be file iris fingerprint log =
     (let formData = register_form file iris fingerprint;
          (out, log') = api_post be ''/register'' formData log
      in (settle out ''Registration failed'', log'))"

definition accessFile :: "backend \<Rightarrow> jsfile option \<Rightarrow> jsfile option \<Rightarrow> jsfile option
    \<Rightarrow> request list \<Rightarrow> (js_error + jsval) \<times> request list" where
  "accessFile be encryptedFile iris fingerprint log =
     (let formData = access_form encryptedFile iris fingerprint;
          (out, log') = api_post be ''/access'' formData log
      in (settle out ''Access denied'', log'))"

section \<open>The Register and Decrypt pages\<close>

text \<open>
  Both pages hold the same React state but for the first file input, \<open>file\<close> on the
  Register page and \<open>encryptedFile\<close> on the Decrypt page. \<open>useState(null)\<close> starts every
  input and the result at \<open>null\<close> and \<open>loading\<close> at \<open>false\<close>.
\<close>

record bio_form =
  iris :: "jsfile option"
  fingerprint :: "jsfile option"
  irisPreview :: "string option"
  fpPreview :: "string option"
  loading :: bool
  result :: jsval

record register_state = bio_form +
  "file" :: "jsfile option"

record decrypt_state = bio_form +
  encryptedFile :: "jsfile option"

text \<open>
  A page is its React state together with what its handlers have done to the outside:
  the requests made, the delays of the timers set, and the error of a handler whose
  promise rejected.
\<close>

record 'st page =
  st :: 'st
  sent :: "request list"
  timers :: "nat list"
  uncaught :: "js_error option"

definition missing_files :: jsval where
  "missing_files =
     JObj [(''success'', JBool False), (''error'', JStr ''Please upload all required files'')]"

definition handleRegister :: "backend \<Rightarrow> register_state page \<Rightarrow> register_state page" where
  "handleRegister be p =
     (let s = st p in
      if file s = None \<or> iris s = None \<or> fingerprint s = None
      then p\<lparr>st := s\<lparr>result := missing_files\<rparr>\<rparr>
      else
        (let s1 = s\<lparr>loading := True\<rparr>;
             s2 = s1\<lparr>result := JNull\<rparr>;
             (r, log') = registerFile be (file s) (iris s) (fingerprint s) (sent p)
         in case r of
              Inl e \<Rightarrow> p\<lparr>st := s2, sent := log', uncaught := Some e\<rparr>
            | Inr response \<Rightarrow>
                (let s3 = s2\<lparr>loading := False\<rparr>;
                     s4 = s3\<lparr>result := response\<rparr>
                 in case getProp response ''success'' of
                      Inl e \<Rightarrow> p\<lparr>st := s4, sent := log', uncaught := Some e\<rparr>
                    | Inr ok \<Rightarrow>
                        if truthy ok
                        then p\<lparr>st := s4, sent := log', timers := timers p @ [3000]\<rparr>
                        else p\<lparr>st := s4, sent := log'\<rparr>)))"

text \<open>The callback that \<open>handleRegister\<close> hands to \<open>setTimeout\<close> after a success.\<close>

definition clear_after_success :: "register_state \<Rightarrow> register_state" where
  "clear_after_success s =
     s\<lparr>file := None, iris := None, fingerprint := None, irisPreview := None, fpPreview := None\<rparr>"

definition handleClear :: "register_state page \<Rightarrow> register_state page" where
  "handleClear p =
     p\<lparr>st := (st p)\<lparr>file := None, iris := None, fingerprint := None,
                       irisPreview := None, fpPreview := None, result := JNull\<rparr>\<rparr>"

definition handleDecrypt :: "backend \<Rightarrow> decrypt_state page \<Rightarrow> decrypt_state page" where
  "handleDecrypt be p =
     (let s = st p in
      if encryptedFile s = None \<or> iris s = None \<or> fingerprint s = None
      then p\<lparr>st := s\<lparr>result := missing_files\<rparr>\<rparr>
      else
        (let s1 = s\<lparr>loading := True\<rparr>;
             s2 = s1\<lparr>result := JNull\<rparr>;
             (r, log') = accessFile be (encryptedFile s) (iris s) (fingerprint s) (sent p)
         in case r of
              Inl e \<Rightarrow> p\<lparr>st := s2, sent := log', uncaught := Some e\<rparr>
            | Inr response \<Rightarrow>
                (let s3 = s2\<lparr>loading := False\<rparr>;
                     s4 = s3\<lparr>result := response\<rparr>
                 in p\<lparr>st := s4, sent := log'\<rparr>)))"

definition handleNewDecryption :: "decrypt_state page \<Rightarrow> decrypt_state page" where
  "handleNewDecryption p =
     p\<lparr>st := (st p)\<lparr>encryptedFile := None, iris := None, fingerprint := None,
                       irisPreview := None, fpPreview := None, result := JNull\<rparr>\<rparr>"

section \<open>The core's error kinds and attempt limiter\<close>

text \<open>
  Modelled from the spec: the backend that answers \<open>/register\<close> and \<open>/access\<close> is not
  among the sources, so its error kinds are taken from section 7 of the specification.
\<close>

datatype core_error =
    InvalidImage
  | InvalidBiometric
  | AccessDenied
  | RateLimited nat
  | CorruptContainer

text \<open>
  Modelled from the spec: the Attempt Limiter (section 4.6), whose code is not among the
  sources. One state per identity key: \<open>Clean\<close>, \<open>Warned n\<close> after \<open>n\<close> failures,
  \<open>Locked T\<close> until time \<open>T\<close>. Times are natural numbers; \<open>RateLimited\<close> carries the
  retry-after. The model is the state machine of section 4.6; the first-failure timestamp
  of an attempt record and its eviction (section 3) are not part of it.
\<close>

datatype limiter_state = Clean | Warned nat | Locked nat

record limiter_config =
  threshold :: nat
  cooldown :: nat

text \<open>\<open>Locked -> Clean\<close> automatically once the current time passes the lockout expiry.\<close>

fun expire :: "nat \<Rightarrow> limiter_state \<Rightarrow> limiter_state" where
  "expire now (Locked T) = (if T < now then Clean else Locked T)"
| "expire now s = s"

text \<open>\<open>Warned(n) -> Locked\<close> when \<open>n\<close> exceeds the configured threshold.\<close>

fun escalate :: "limiter_config \<Rightarrow> nat \<Rightarrow> limiter_state \<Rightarrow> limiter_state" where
  "escalate cfg now (Warned n) =
     (if threshold cfg < n then Locked (now + cooldown cfg) else Warned n)"
| "escalate cfg now s = s"

text \<open>\<open>Clean/Warned -> Warned(n+1)\<close> on each failed Access; any success resets to \<open>Clean\<close>.\<close>

fun on_failure :: "limiter_config \<Rightarrow> nat \<Rightarrow> limiter_state \<Rightarrow> limiter_state" where
  "on_failure cfg now Clean = escalate cfg now (Warned 1)"
| "on_failure cfg now (Warned n) = escalate cfg now (Warned (Suc n))"
| "on_failure cfg now (Locked T) = Locked T"

definition on_success :: "limiter_state \<Rightarrow> limiter_state" where
  "on_success s = Clean"

text \<open>
  The contract over the store of records, \<open>recordFailure(identityKey)\<close>,
  \<open>recordSuccess(identityKey)\<close> and \<open>checkAllowed(identityKey)\<close>; an identity without a
  record is \<open>Clean\<close>.
\<close>

type_synonym 'k limiter = "'k \<Rightarrow> limiter_state"

definition recordFailure :: "limiter_config \<Rightarrow> nat \<Rightarrow> 'k \<Rightarrow> 'k limiter \<Rightarrow> 'k limiter" where
  "recordFailure cfg now k lim = lim(k := on_failure cfg now (expire now (lim k)))"

definition recordSuccess :: "'k \<Rightarrow> 'k limiter \<Rightarrow> 'k limiter" where
  "recordSuccess k lim = lim(k := on_success (lim k))"

definition checkAllowed :: "nat \<Rightarrow> 'k \<Rightarrow> 'k limiter \<Rightarrow> core_error + unit" where
  "checkAllowed now k lim =
     (case expire now (lim k) of
        Locked T \<Rightarrow> Inl (RateLimited (T - now))
      | _ \<Rightarrow> Inr ())"

text \<open>
  One Access attempt as the limiter sees it: the check comes before any validation or
  decryption, whose outcome is then recorded: \<open>ok\<close> when the biometrics were the right
  ones, and otherwise a failure that counts (\<open>InvalidBiometric\<close> or \<open>AccessDenied\<close>,
  shown here as the latter).
\<close>

definition attempt :: "limiter_config \<Rightarrow> nat \<Rightarrow> 'k \<Rightarrow> bool \<Rightarrow> 'k limiter
    \<Rightarrow> (core_error + unit) \<times> 'k limiter" where
  "attempt cfg now k ok lim =
     (case checkAllowed now k lim of
        Inl e \<Rightarrow> (Inl e, lim)
      | Inr u \<Rightarrow>
          if ok then (Inr (), recordSuccess k lim)
          else (Inl AccessDenied, recordFailure cfg now k lim))"

text \<open>A run of failed attempts of one identity, at the times given.\<close>

fun failures :: "limiter_config \<Rightarrow> nat list \<Rightarrow> limiter_state \<Rightarrow> limiter_state" where
  "failures cfg [] s = s"
| "failures cfg (t # ts) s = failures cfg ts (on_failure cfg t (expire t s))"

section \<open>Sample inputs\<close>

definition sample_file :: jsfile where
  "sample_file = \<lparr>name = ''report.pdf'', mime = ''application/pdf'', size = 2048\<rparr>"

definition sample_enc :: jsfile where
  "sample_enc = \<lparr>name = ''report.pdf.enc'', mime = [], size = 2100\<rparr>"

definition sample_iris :: jsfile where
  "sample_iris = \<lparr>name = ''iris.png'', mime = ''image/png'', size = 512\<rparr>"

definition sample_fp :: jsfile where
  "sample_fp = \<lparr>name = ''finger.png'', mime = ''image/png'', size = 640\<rparr>"

text \<open>The pages as first rendered: every \<open>useState\<close> at its initial value.\<close>

definition initial_register :: "register_state page" where
  "initial_register =
     \<lparr>st = \<lparr>iris = None, fingerprint = None, irisPreview = None, fpPreview = None,
             loading = False, result = JNull, file = None\<rparr>,
      sent = [], timers = [], uncaught = None\<rparr>"

definition initial_decrypt :: "decrypt_state page" where
  "initial_decrypt =
     \<lparr>st = \<lparr>iris = None, fingerprint = None, irisPreview = None, fpPreview = None,
             loading = False, result = JNull, encryptedFile = None\<rparr>,
      sent = [], timers = [], uncaught = None\<rparr>"

text \<open>The Decrypt page with two of its three inputs chosen.\<close>

definition decrypt_without_fp :: "decrypt_state page" where
  "decrypt_without_fp =
     initial_decrypt\<lparr>st := (st initial_decrypt)\<lparr>encryptedFile := Some sample_enc,
                                                iris := Some sample_iris\<rparr>\<rparr>"

text \<open>
  The error axios rejects with when the server answers with an error status and a JSON body
  \<open>{detail: ...}\<close>, and the one it rejects with when no answer arrives.
\<close>

definition http_error :: "int \<Rightarrow> jsval \<Rightarrow> jsval" where
  "http_error status detail =
     JObj [(''message'', JStr ''Request failed''),
           (''response'', JObj [(''status'', JNum status),
                                (''data'', JObj [(''detail'', detail)])])]"

definition network_error :: jsval where
  "network_error = JObj [(''message'', JStr ''Network Error'')]"

text \<open>
  A server that rejects every request as unprocessable, the detail being a list of
  field errors and not a string.
\<close>

definition validation_error_backend :: backend where
  "validation_error_backend r =
     Rejected (http_error 422 (JArr [JObj [(''msg'', JStr ''Field required'')]]))"

text \<open>A limiter that locks at the fourth failure, for a minute, and has no record yet.\<close>

definition sample_config :: limiter_config where
  "sample_config = \<lparr>threshold = 3, cooldown = 60\<rparr>"

definition fresh_limiter :: "string limiter" where
  "fresh_limiter k = Clean"

section \<open>Properties of the API client\<close>

lemma getProp_optProp:
  "v \<noteq> JUndefined \<Longrightarrow> v \<noteq> JNull \<Longrightarrow> getProp v k = Inr (optProp v k)"
  by (cases v) (auto split: option.splits)

lemma registerFile_settle:
  "registerFile be f i g log =
     (settle (be \<lparr>url = ''/register'', form = register_form f i g\<rparr>) ''Registration failed'',
      log @ [\<lparr>url = ''/register'', form = register_form f i g\<rparr>])"
  by (simp add: registerFile_def api_post_def Let_def)

lemma accessFile_settle:
  "accessFile be f i g log =
     (settle (be \<lparr>url = ''/access'', form = access_form f i g\<rparr>) ''Access denied'',
      log @ [\<lparr>url = ''/access'', form = access_form f i g\<rparr>])"
  by (simp add: accessFile_def api_post_def Let_def)

lemma failure_result_object:
  assumes "err \<noteq> JUndefined" and "err \<noteq> JNull"
  shows "failure_result err fb =
           Inr (JObj [(''success'', JBool False),
                      (''error'',
                       jsOr (optProp (optProp (optProp err ''response'') ''data'') ''detail'')
                            (jsOr (optProp err ''message'') (JStr fb)))])"
  using assms by (simp add: failure_result_def getProp_optProp jsOr_def Let_def)

lemma truthy_jsOr: "truthy b \<Longrightarrow> truthy (jsOr a b)"
  by (simp add: jsOr_def)

lemma isStr_truthy_conv: "isStr v \<and> truthy v \<longleftrightarrow> (\<exists>s. v = JStr s \<and> s \<noteq> [])"
  by (cases v) auto

text \<open>
  C8, as stated, fails. The claim promises a non-empty error string on every failure. When
  the server answers with an error whose \<open>detail\<close> is truthy and not a string (here a
  list of field errors), \<open>accessFile\<close> and \<open>registerFile\<close> hand that value on as the
  \<open>error\<close>.
\<close>

theorem api_failure_reported_counterexample:
  "fst (accessFile validation_error_backend (Some sample_enc) (Some sample_iris) (Some sample_fp) [])
     = Inr (JObj [(''success'', JBool False),
                  (''error'', JArr [JObj [(''msg'', JStr ''Field required'')]])])
   \<and> \<not> isStr (JArr [JObj [(''msg'', JStr ''Field required'')]])
   \<and> fst (registerFile validation_error_backend (Some sample_file) (Some sample_iris) (Some sample_fp) [])
     = Inr (JObj [(''success'', JBool False),
                  (''error'', JArr [JObj [(''msg'', JStr ''Field required'')]])])"
  by (simp add: accessFile_settle registerFile_settle settle_def validation_error_backend_def
      http_error_def failure_result_def jsOr_def)

text \<open>
  C8, amended. \<open>registerFile\<close> and \<open>accessFile\<close> make one request and settle on its
  outcome. A resolved request gives \<open>{success: true, data}\<close> with the response's data.
  A rejected one, whose thrown value is not \<open>undefined\<close> or \<open>null\<close> (axios rejects with
  an error object), does not throw and gives \<open>{success: false, error}\<close>, where \<open>error\<close>
  is truthy: the response's \<open>detail\<close> when that is truthy, else the error's \<open>message\<close>
  when that is truthy, else the fallback, \<open>'Registration failed'\<close> or
  \<open>'Access denied'\<close>. It is a non-empty string whenever a truthy \<open>detail\<close> and a truthy
  \<open>message\<close> are strings.
\<close>

theorem api_outcomes_reported:
  "fst (registerFile be f i g log) =
      settle (be \<lparr>url = ''/register'', form = register_form f i g\<rparr>) ''Registration failed''
   \<and> snd (registerFile be f i g log) =
      log @ [\<lparr>url = ''/register'', form = register_form f i g\<rparr>]
   \<and> fst (accessFile be e i g log) =
      settle (be \<lparr>url = ''/access'', form = access_form e i g\<rparr>) ''Access denied''
   \<and> snd (accessFile be e i g log) =
      log @ [\<lparr>url = ''/access'', form = access_form e i g\<rparr>]
   \<and> settle (Resolved d) fb = Inr (JObj [(''success'', JBool True), (''data'', d)])
   \<and> (err \<noteq> JUndefined \<and> err \<noteq> JNull \<and> fb \<noteq> [] \<longrightarrow>
        (\<exists>v. settle (Rejected err) fb = Inr (JObj [(''success'', JBool False), (''error'', v)])
           \<and> truthy v
           \<and> v = jsOr (optProp (optProp (optProp err ''response'') ''data'') ''detail'')
                    (jsOr (optProp err ''message'') (JStr fb))
           \<and> ((truthy (optProp (optProp (optProp err ''response'') ''data'') ''detail'')
                  \<longrightarrow> isStr (optProp (optProp (optProp err ''response'') ''data'') ''detail''))
              \<and> (truthy (optProp err ''message'') \<longrightarrow> isStr (optProp err ''message''))
              \<longrightarrow> (\<exists>s. v = JStr s \<and> s \<noteq> []))
           \<and> (\<not> truthy (optProp (optProp (optProp err ''response'') ''data'') ''detail'')
              \<and> \<not> truthy (optProp err ''message'') \<longrightarrow> v = JStr fb)))"
proof -
  have rej: "err \<noteq> JUndefined \<and> err \<noteq> JNull \<and> fb \<noteq> [] \<longrightarrow>
        (\<exists>v. settle (Rejected err) fb = Inr (JObj [(''success'', JBool False), (''error'', v)])
           \<and> truthy v
           \<and> v = jsOr (optProp (optProp (optProp err ''response'') ''data'') ''detail'')
                    (jsOr (optProp err ''message'') (JStr fb))
           \<and> ((truthy (optProp (optProp (optProp err ''response'') ''data'') ''detail'')
                  \<longrightarrow> isStr (optProp (optProp (optProp err ''response'') ''data'') ''detail''))
              \<and> (truthy (optProp err ''message'') \<longrightarrow> isStr (optProp err ''message''))
              \<longrightarrow> (\<exists>s. v = JStr s \<and> s \<noteq> []))
           \<and> (\<not> truthy (optProp (optProp (optProp err ''response'') ''data'') ''detail'')
              \<and> \<not> truthy (optProp err ''message'') \<longrightarrow> v = JStr fb))"
  proof (intro impI, elim conjE)
    assume ne: "err \<noteq> JUndefined" "err \<noteq> JNull" and fb: "fb \<noteq> []"
    let ?detail = "optProp (optProp (optProp err ''response'') ''data'') ''detail''"
    let ?msg = "optProp err ''message''"
    let ?v = "jsOr ?detail (jsOr ?msg (JStr fb))"
    have 1: "settle (Rejected err) fb = Inr (JObj [(''success'', JBool False), (''error'', ?v)])"
      using ne by (simp add: settle_def failure_result_object)
    have 2: "truthy ?v"
      using fb by (simp add: truthy_jsOr)
    have 3: "(truthy ?detail \<longrightarrow> isStr ?detail) \<and> (truthy ?msg \<longrightarrow> isStr ?msg)
              \<longrightarrow> (\<exists>s. ?v = JStr s \<and> s \<noteq> [])"
    proof
      assume h: "(truthy ?detail \<longrightarrow> isStr ?detail) \<and> (truthy ?msg \<longrightarrow> isStr ?msg)"
      then have "isStr ?v" by (simp add: jsOr_def)
      with 2 show "\<exists>s. ?v = JStr s \<and> s \<noteq> []"
        using isStr_truthy_conv [of ?v] by blast
    qed
    have 4: "\<not> truthy ?detail \<and> \<not> truthy ?msg \<longrightarrow> ?v = JStr fb"
      by (simp add: jsOr_def)
    from 1 2 3 4 show "\<exists>v. settle (Rejected err) fb = Inr (JObj [(''success'', JBool False), (''error'', v)])
           \<and> truthy v
           \<and> v = jsOr ?detail (jsOr ?msg (JStr fb))
           \<and> ((truthy ?detail \<longrightarrow> isStr ?detail) \<and> (truthy ?msg \<longrightarrow> isStr ?msg)
              \<longrightarrow> (\<exists>s. v = JStr s \<and> s \<noteq> []))
           \<and> (\<not> truthy ?detail \<and> \<not> truthy ?msg \<longrightarrow> v = JStr fb)"
      by blast
  qed
  show ?thesis
    using rej by (simp add: registerFile_settle accessFile_settle settle_def)
qed

theorem api_outcomes_reported_witness:
  "network_error \<noteq> JUndefined \<and> network_error \<noteq> JNull
   \<and> settle (Rejected network_error) ''Access denied''
       = Inr (JObj [(''success'', JBool False), (''error'', JStr ''Network Error'')])
   \<and> settle (Rejected (JObj [])) ''Access denied''
       = Inr (JObj [(''success'', JBool False), (''error'', JStr ''Access denied'')])"
  using api_outcomes_reported [where err = network_error and fb = "''Access denied''"]
    api_outcomes_reported [where err = "JObj []" and fb = "''Access denied''"]
  by (simp add: network_error_def jsOr_def)

section \<open>Properties of the attempt limiter\<close>

lemma failures_append:
  "failures cfg (ts @ us) s = failures cfg us (failures cfg ts s)"
  by (induction ts arbitrary: s) simp_all

lemma failures_warned:
  "length ts \<le> threshold cfg \<Longrightarrow> ts \<noteq> [] \<Longrightarrow> failures cfg ts Clean = Warned (length ts)"
proof (induction ts rule: rev_induct)
  case Nil
  then show ?case by simp
next
  case (snoc t ts)
  show ?case
  proof (cases "ts = []")
    case True
    with snoc.prems show ?thesis by simp
  next
    case False
    with snoc have "failures cfg ts Clean = Warned (length ts)" by simp
    with snoc.prems show ?thesis by (simp add: failures_append)
  qed
qed

lemma failures_locked:
  assumes "length ts = threshold cfg"
  shows "failures cfg (ts @ [t]) Clean = Locked (t + cooldown cfg)"
proof (cases "ts = []")
  case True
  with assms show ?thesis by simp
next
  case False
  with assms have "failures cfg ts Clean = Warned (length ts)"
    by (simp add: failures_warned)
  with assms show ?thesis by (simp add: failures_append)
qed

text \<open>
  C5 (attempt limiter). For every identity key: a failed Access moves \<open>Clean\<close> to
  \<open>Warned 1\<close> and \<open>Warned n\<close> to \<open>Warned (n + 1)\<close>; a \<open>Warned\<close> count that exceeds the
  threshold becomes \<open>Locked\<close>, at once, until the cooldown has passed; a success resets
  the state to \<open>Clean\<close>; \<open>Locked T\<close> counts as \<open>Clean\<close> once the time is past \<open>T\<close>, so
  that an attempt is let through again; and up to \<open>T\<close> every attempt, with the right
  biometrics too, fails with \<open>RateLimited\<close> and leaves the state as it is. No attempt
  touches another identity's state, and threshold + 1 failures in a row, starting from
  \<open>Clean\<close>, end in \<open>Locked\<close>.
\<close>

theorem attempt_limiter_machine:
  "(lim k = Clean \<longrightarrow>
       attempt cfg now k False lim
         = (Inl AccessDenied, lim(k := escalate cfg now (Warned 1))))
   \<and> (lim k = Warned n \<longrightarrow>
       attempt cfg now k False lim
         = (Inl AccessDenied, lim(k := escalate cfg now (Warned (Suc n)))))
   \<and> escalate cfg now (Warned m) =
        (if threshold cfg < m then Locked (now + cooldown cfg) else Warned m)
   \<and> (lim k = Clean \<or> lim k = Warned n \<longrightarrow>
       attempt cfg now k True lim = (Inr (), lim(k := Clean)))
   \<and> (lim k = Locked T \<and> T < now \<longrightarrow>
       expire now (lim k) = Clean
       \<and> checkAllowed now k lim = Inr ()
       \<and> attempt cfg now k True lim = (Inr (), lim(k := Clean))
       \<and> attempt cfg now k False lim
           = (Inl AccessDenied, lim(k := escalate cfg now (Warned 1))))
   \<and> (lim k = Locked T \<and> now \<le> T \<longrightarrow>
       checkAllowed now k lim = Inl (RateLimited (T - now))
       \<and> attempt cfg now k ok lim = (Inl (RateLimited (T - now)), lim))
   \<and> (k' \<noteq> k \<longrightarrow> snd (attempt cfg now k ok lim) k' = lim k')
   \<and> (length ts = threshold cfg \<longrightarrow>
       failures cfg (ts @ [t]) Clean = Locked (t + cooldown cfg))"
proof -
  have fail: "(lim k = Clean \<longrightarrow>
       attempt cfg now k False lim
         = (Inl AccessDenied, lim(k := escalate cfg now (Warned 1))))
   \<and> (lim k = Warned n \<longrightarrow>
       attempt cfg now k False lim
         = (Inl AccessDenied, lim(k := escalate cfg now (Warned (Suc n)))))"
    by (simp add: attempt_def checkAllowed_def recordFailure_def)
  have esc: "escalate cfg now (Warned m) =
        (if threshold cfg < m then Locked (now + cooldown cfg) else Warned m)"
    by simp
  have succ: "lim k = Clean \<or> lim k = Warned n \<longrightarrow>
       attempt cfg now k True lim = (Inr (), lim(k := Clean))"
    by (auto simp: attempt_def checkAllowed_def recordSuccess_def on_success_def)
  have expired: "lim k = Locked T \<and> T < now \<longrightarrow>
       expire now (lim k) = Clean
       \<and> checkAllowed now k lim = Inr ()
       \<and> attempt cfg now k True lim = (Inr (), lim(k := Clean))
       \<and> attempt cfg now k False lim
           = (Inl AccessDenied, lim(k := escalate cfg now (Warned 1)))"
    by (simp add: attempt_def checkAllowed_def recordSuccess_def recordFailure_def
        on_success_def)
  have locked: "lim k = Locked T \<and> now \<le> T \<longrightarrow>
       checkAllowed now k lim = Inl (RateLimited (T - now))
       \<and> attempt cfg now k ok lim = (Inl (RateLimited (T - now)), lim)"
    by (simp add: attempt_def checkAllowed_def)
  have other: "k' \<noteq> k \<longrightarrow> snd (attempt cfg now k ok lim) k' = lim k'"
    by (simp add: attempt_def recordSuccess_def recordFailure_def split: sum.splits)
  have run: "length ts = threshold cfg \<longrightarrow>
       failures cfg (ts @ [t]) Clean = Locked (t + cooldown cfg)"
    by (simp add: failures_locked)
  from fail esc succ expired locked other run show ?thesis
    by blast
qed

theorem attempt_limiter_machine_witness:
  "attempt sample_config 10 ''alice'' False fresh_limiter
     = (Inl AccessDenied, fresh_limiter(''alice'' := Warned 1))
   \<and> attempt sample_config 40 ''alice'' False (fresh_limiter(''alice'' := Warned 3))
     = (Inl AccessDenied, fresh_limiter(''alice'' := Locked 100))
   \<and> attempt sample_config 100 ''alice'' True (fresh_limiter(''alice'' := Locked 100))
     = (Inl (RateLimited 0), fresh_limiter(''alice'' := Locked 100))
   \<and> attempt sample_config 101 ''alice'' True (fresh_limiter(''alice'' := Locked 100))
     = (Inr (), fresh_limiter(''alice'' := Clean))
   \<and> failures sample_config [10, 20, 30, 40] Clean = Locked 100"
  using attempt_limiter_machine [where cfg = sample_config and now = 10 and k = "''alice''"
      and lim = fresh_limiter]
    attempt_limiter_machine [where cfg = sample_config and now = 40 and k = "''alice''"
      and lim = "fresh_limiter(''alice'' := Warned 3)" and n = 3]
    attempt_limiter_machine [where cfg = sample_config and now = 100 and k = "''alice''"
      and lim = "fresh_limiter(''alice'' := Locked 100)" and T = 100 and ok = True]
    attempt_limiter_machine [where cfg = sample_config and now = 101 and k = "''alice''"
      and lim = "fresh_limiter(''alice'' := Locked 100)" and T = 100]
    attempt_limiter_machine [where cfg = sample_config and ts = "[10, 20, 30]" and t = 40]
  by (simp add: sample_config_def fresh_limiter_def)

section \<open>Properties of the page handlers\<close>

text \<open>
  C9 (missing-input guard). When \<open>handleRegister\<close> runs while the file, the iris or the
  fingerprint is still \<open>null\<close>, and when \<open>handleDecrypt\<close> runs while the encrypted file,
  the iris or the fingerprint is still \<open>null\<close>, the handler changes nothing but the
  result: no request is made (the log of requests is as before and the backend is never
  consulted), \<open>loading\<close> keeps its value, so it stays \<open>false\<close>, and the result becomes
  the failure \<open>{success: false, error: 'Please upload all required files'}\<close>.
\<close>

theorem missing_input_guard:
  fixes p :: "register_state page" and q :: "decrypt_state page"
  shows "(file (st p) = None \<or> iris (st p) = None \<or> fingerprint (st p) = None \<longrightarrow>
            handleRegister be p = p\<lparr>st := (st p)\<lparr>result := missing_files\<rparr>\<rparr>
          \<and> sent (handleRegister be p) = sent p
          \<and> loading (st (handleRegister be p)) = loading (st p)
          \<and> getProp (result (st (handleRegister be p))) ''success'' = Inr (JBool False)
          \<and> getProp (result (st (handleRegister be p))) ''error'' =
              Inr (JStr ''Please upload all required files''))
       \<and> (encryptedFile (st q) = None \<or> iris (st q) = None \<or> fingerprint (st q) = None \<longrightarrow>
            handleDecrypt be q = q\<lparr>st := (st q)\<lparr>result := missing_files\<rparr>\<rparr>
          \<and> sent (handleDecrypt be q) = sent q
          \<and> loading (st (handleDecrypt be q)) = loading (st q)
          \<and> getProp (result (st (handleDecrypt be q))) ''success'' = Inr (JBool False)
          \<and> getProp (result (st (handleDecrypt be q))) ''error'' =
              Inr (JStr ''Please upload all required files''))"
  by (simp add: handleRegister_def handleDecrypt_def missing_files_def Let_def)

theorem missing_input_guard_witness:
  "file (st initial_register) = None
   \<and> sent (handleRegister validation_error_backend initial_register) = []
   \<and> \<not> loading (st (handleRegister validation_error_backend initial_register))
   \<and> result (st (handleRegister validation_error_backend initial_register)) = missing_files
   \<and> fingerprint (st decrypt_without_fp) = None
   \<and> sent (handleDecrypt validation_error_backend decrypt_without_fp) = []
   \<and> \<not> loading (st (handleDecrypt validation_error_backend decrypt_without_fp))
   \<and> result (st (handleDecrypt validation_error_backend decrypt_without_fp)) = missing_files"
  using missing_input_guard [of initial_register validation_error_backend decrypt_without_fp]
  by (simp add: initial_register_def decrypt_without_fp_def initial_decrypt_def)

text \<open>
  C10 (clear-form postcondition). After \<open>handleClear\<close> on the Register page, and after
  \<open>handleNewDecryption\<close> on the Decrypt page, the protected or encrypted file, the iris,
  the fingerprint, both previews and the result are all \<open>null\<close>, whatever the state was
  before.
\<close>

theorem clear_form_postcondition:
  fixes p :: "register_state page" and q :: "decrypt_state page"
  shows "file (st (handleClear p)) = None
       \<and> iris (st (handleClear p)) = None
       \<and> fingerprint (st (handleClear p)) = None
       \<and> irisPreview (st (handleClear p)) = None
       \<and> fpPreview (st (handleClear p)) = None
       \<and> result (st (handleClear p)) = JNull
       \<and> encryptedFile (st (handleNewDecryption q)) = None
       \<and> iris (st (handleNewDecryption q)) = None
       \<and> fingerprint (st (handleNewDecryption q)) = None
       \<and> irisPreview (st (handleNewDecryption q)) = None
       \<and> fpPreview (st (handleNewDecryption q)) = None
       \<and> result (st (handleNewDecryption q)) = JNull"
  by (simp add: handleClear_def handleNewDecryption_def)

end
